theory Spec2Isabelle
  imports Main "HOL-Library.Word"
begin

unbundle bit_operations_syntax

section \<open>The ADT7410 driver (ExtendedADT7410.h, ExtendedADT7410.cpp)\<close>

subsection \<open>Constants of the header\<close>

type_synonym byte = "8 word"

definition ADT7410_I2C_ADDRESS_0 :: byte where
  "ADT7410_I2C_ADDRESS_0 = 0x48"

definition ADT7410_REG__TEMP_MSB :: byte where
  "ADT7410_REG__TEMP_MSB = 0x00"

definition ADT7410_REG__TEMP_LSB :: byte where
  "ADT7410_REG__TEMP_LSB = 0x01"

definition ADT7410_REG__ADT7410_STATUS :: byte where
  "ADT7410_REG__ADT7410_STATUS = 0x2"

definition ADT7410_REG__CONFIG :: byte where
  "ADT7410_REG__CONFIG = 0x03"

definition ADT7410_REG__ADT7410_ID :: byte where
  "ADT7410_REG__ADT7410_ID = 0xB"

definition ADT7410_MODE_16BIT :: byte where
  "ADT7410_MODE_16BIT = 0x80"

definition ADT7410_MODE_CONTINUOUS :: byte where
  "ADT7410_MODE_CONTINUOUS = 0x00"

subsection \<open>The Wire object\<close>

text \<open>
  The driver talks to the bus through the global \<open>Wire\<close> object of the Arduino core,
  which is not part of the repository. It is taken here as a parameter of the driver:
  \<^item> \<open>trace\<close> records the calls that act on the bus, oldest first;
  \<^item> \<open>rxbuf\<close> holds the bytes received by the last \<open>requestFrom\<close> and not yet read;
  \<^item> \<open>script\<close> is the environment: the bytes the device offers at each coming
    \<open>requestFrom\<close>, in order (nothing once the script is used up).
  The driver is deterministic, so every run against every device is the run against some
  script. \<open>available\<close> and \<open>read\<close> only look at the receive buffer and leave no entry
  in the trace.
\<close>

datatype event =
    Begin
  | BeginTransmission byte
  | Write byte
  | EndTransmission
  | RequestFrom byte byte

record wire =
  trace :: "event list"
  rxbuf :: "byte list"
  script :: "byte list list"

definition Wire_begin :: "wire \<Rightarrow> wire" where
  "Wire_begin w = w\<lparr>trace := trace w @ [Begin]\<rparr>"

definition Wire_beginTransmission :: "byte \<Rightarrow> wire \<Rightarrow> wire" where
  "Wire_beginTransmission a w = w\<lparr>trace := trace w @ [BeginTransmission a]\<rparr>"

definition Wire_write :: "byte \<Rightarrow> wire \<Rightarrow> wire" where
  "Wire_write b w = w\<lparr>trace := trace w @ [Write b]\<rparr>"

definition Wire_endTransmission :: "wire \<Rightarrow> wire" where
  "Wire_endTransmission w = w\<lparr>trace := trace w @ [EndTransmission]\<rparr>"

text \<open>
  Modelled from the spec: a read fills the buffer up to the requested count or until the
  bus reports no more available data, whichever is shorter. \<open>requestFrom(a, n)\<close> is the
  bus master's read of \<open>n\<close> bytes: the master ends the transfer after the \<open>n\<close>-th byte, so
  the receive buffer holds the first \<open>n\<close> bytes the device offers, or all of them when it
  offers fewer. The bytes left in the buffer by an earlier request are dropped.
\<close>

definition Wire_requestFrom :: "byte \<Rightarrow> byte \<Rightarrow> wire \<Rightarrow> wire" where
  "Wire_requestFrom a n w =
     (case script w of
        [] \<Rightarrow> w\<lparr>trace := trace w @ [RequestFrom a n], rxbuf := []\<rparr>
      | r # rs \<Rightarrow>
          w\<lparr>trace := trace w @ [RequestFrom a n], rxbuf := take (unat n) r, script := rs\<rparr>)"

definition Wire_available :: "wire \<Rightarrow> int" where
  "Wire_available w = int (length (rxbuf w))"

text \<open>\<open>Wire.read()\<close> returns an \<open>int\<close>: the next byte, or -1 when there is none.\<close>

definition Wire_read :: "wire \<Rightarrow> int \<times> wire" where
  "Wire_read w =
     (case rxbuf w of
        [] \<Rightarrow> (- 1, w)
      | b # bs \<Rightarrow> (uint b, w\<lparr>rxbuf := bs\<rparr>))"

subsection \<open>The sensor handle and the machine state\<close>

text \<open>
  The methods of the class are not \<open>const\<close>: each one gets the object and the bus and
  hands both back, so that what a method leaves untouched is a theorem and not a type.
\<close>

record handle =
  sensorID :: byte
  i2cAddress :: byte

record state =
  self :: handle
  bus :: wire

text \<open>
  Undefined behaviour of the C++ is an error value, after which the model says nothing:
  a store outside the object a pointer refers to, and the use of a local that was never
  written.
\<close>

datatype error = BufferOverrun | UninitialisedRead

text \<open>
  The object behind an \<open>unsigned char *\<close>: one entry for each byte of the caller's
  variable or array, \<open>None\<close> while the byte has not been initialised.
\<close>

type_synonym buffer = "byte option list"

definition load :: "buffer \<Rightarrow> nat \<Rightarrow> error + byte" where
  "load data i =
     (if i < length data
      then (case data ! i of None \<Rightarrow> Inl UninitialisedRead | Some v \<Rightarrow> Inr v)
      else Inl BufferOverrun)"

subsection \<open>Constructor\<close>

definition ADT7410 :: "byte \<Rightarrow> handle" where
  "ADT7410 sensor_id =
     (if sensor_id = 0 \<or> sensor_id = 1 \<or> sensor_id = 2
      then \<lparr>sensorID = sensor_id, i2cAddress = ADT7410_I2C_ADDRESS_0 + sensor_id\<rparr>
      else \<lparr>sensorID = 0, i2cAddress = ADT7410_I2C_ADDRESS_0\<rparr>)"

subsection \<open>Bus primitives\<close>

definition writeI2c :: "byte \<Rightarrow> byte \<Rightarrow> state \<Rightarrow> state" where
  "writeI2c address data s =
     (let w = Wire_beginTransmission (i2cAddress (self s)) (bus s);
          w = Wire_write address w;
          w = Wire_write data w;
          w = Wire_endTransmission w
      in s\<lparr>bus := w\<rparr>)"

text \<open>
  The loop of \<open>readI2c\<close>: \<open>while (Wire.available()) data[i++] = Wire.read();\<close> with
  \<open>uint8_t i\<close>, so the index wraps at 256. The only exit is an empty receive buffer.
\<close>

function readI2c_loop :: "byte \<Rightarrow> buffer \<Rightarrow> wire \<Rightarrow> error + (buffer \<times> wire)" where
  "readI2c_loop i data w =
     (if Wire_available w \<noteq> 0
      then (case Wire_read w of
              (v, w') \<Rightarrow>
                if unat i < length data
                then readI2c_loop (i + 1) (data[unat i := Some (word_of_int v)]) w'
                else Inl BufferOverrun)
      else Inr (data, w))"
  by pat_completeness auto
termination
  by (relation "measure (\<lambda>(i, data, w). length (rxbuf w))")
     (auto simp: Wire_available_def Wire_read_def split: list.splits)

definition readI2c :: "byte \<Rightarrow> byte \<Rightarrow> buffer \<Rightarrow> state \<Rightarrow> error + (buffer \<times> state)" where
  "readI2c address num data s =
     (let w = Wire_beginTransmission (i2cAddress (self s)) (bus s);
          w = Wire_write address w;
          w = Wire_endTransmission w;
          w = Wire_requestFrom (i2cAddress (self s)) num w
      in case readI2c_loop 0 data w of
           Inl e \<Rightarrow> Inl e
         | Inr (data', w') \<Rightarrow> Inr (data', s\<lparr>bus := w'\<rparr>))"

subsection \<open>Public operations\<close>

definition getStatus :: "state \<Rightarrow> error + (byte \<times> state)" where
  "getStatus s =
     (case readI2c ADT7410_REG__ADT7410_STATUS 1 [None] s of
        Inl e \<Rightarrow> Inl e
      | Inr (status, s') \<Rightarrow>
          (case load status 0 of Inl e \<Rightarrow> Inl e | Inr v \<Rightarrow> Inr (v, s')))"

definition getID :: "state \<Rightarrow> byte \<times> state" where
  "getID s = (sensorID (self s), s)"

definition initialise :: "state \<Rightarrow> error + (byte \<times> state)" where
  "initialise s =
     (let s = s\<lparr>bus := Wire_begin (bus s)\<rparr> in
      case readI2c ADT7410_REG__ADT7410_ID 1 [None] s of
        Inl e \<Rightarrow> Inl e
      | Inr (whoami, s) \<Rightarrow>
          (let config = ADT7410_MODE_16BIT;
               config = config OR ADT7410_MODE_CONTINUOUS;
               config = config OR 1;
               s = writeI2c ADT7410_REG__CONFIG config s
           in case load whoami 0 of Inl e \<Rightarrow> Inl e | Inr v \<Rightarrow> Inr (v, s)))"

text \<open>
  Lines 86 to 104 of \<open>readTemperature\<close>: the two data bytes are concatenated into the
  \<open>unsigned short\<close>, then adjusted in the branch the configuration byte selects. The
  subtractions are done in a wider integer type and stored back into 16 bits.
\<close>

definition convert :: "byte \<Rightarrow> byte \<Rightarrow> byte \<Rightarrow> 16 word" where
  "convert config data0 data1 =
     (let tempValue = push_bit 8 (ucast data0 :: 16 word);
          tempValue = tempValue OR ucast data1
      in if config AND 0x80 \<noteq> 0
         then (let tempValue = drop_bit 3 tempValue
               in if tempValue AND 0x1000 \<noteq> 0
                  then word_of_int (uint tempValue - 8192)
                  else tempValue)
         else (if tempValue AND 0x8000 \<noteq> 0
               then word_of_int (uint tempValue - 65536)
               else tempValue))"

definition readTemperature :: "state \<Rightarrow> error + (16 word \<times> state)" where
  "readTemperature s =
     (case getStatus s of
        Inl e \<Rightarrow> Inl e
      | Inr (status, s) \<Rightarrow>
          if status AND 0x80 = 0
          then (case readI2c ADT7410_REG__CONFIG 1 [Some 0] s of
                  Inl e \<Rightarrow> Inl e
                | Inr (config, s) \<Rightarrow>
                    (case readI2c ADT7410_REG__TEMP_MSB 2 [None, None] s of
                       Inl e \<Rightarrow> Inl e
                     | Inr (data, s) \<Rightarrow>
                         (case load data 0 of
                            Inl e \<Rightarrow> Inl e
                          | Inr data0 \<Rightarrow>
                              (case load data 1 of
                                 Inl e \<Rightarrow> Inl e
                               | Inr data1 \<Rightarrow>
                                   (case load config 0 of
                                      Inl e \<Rightarrow> Inl e
                                    | Inr c \<Rightarrow> Inr (convert c data0 data1, s))))))
          else Inr (0, s))"

subsection \<open>Client programs\<close>

text \<open>
  A client owns one handle and calls its public methods one after the other. A call whose
  behaviour is undefined ends the program.
\<close>

datatype call = Initialise | ReadTemperature | GetStatus | GetID

fun exec :: "call \<Rightarrow> state \<Rightarrow> error + state" where
  "exec Initialise s = (case initialise s of Inl e \<Rightarrow> Inl e | Inr (v, s') \<Rightarrow> Inr s')"
| "exec ReadTemperature s =
     (case readTemperature s of Inl e \<Rightarrow> Inl e | Inr (v, s') \<Rightarrow> Inr s')"
| "exec GetStatus s = (case getStatus s of Inl e \<Rightarrow> Inl e | Inr (v, s') \<Rightarrow> Inr s')"
| "exec GetID s = (case getID s of (v, s') \<Rightarrow> Inr s')"

fun run :: "call list \<Rightarrow> state \<Rightarrow> error + state" where
  "run [] s = Inr s"
| "run (c # cs) s = (case exec c s of Inl e \<Rightarrow> Inl e | Inr s' \<Rightarrow> run cs s')"

section \<open>Properties\<close>

lemmas reg_defs =
  ADT7410_I2C_ADDRESS_0_def ADT7410_REG__TEMP_MSB_def ADT7410_REG__TEMP_LSB_def
  ADT7410_REG__ADT7410_STATUS_def ADT7410_REG__CONFIG_def ADT7410_REG__ADT7410_ID_def
  ADT7410_MODE_16BIT_def ADT7410_MODE_CONTINUOUS_def

lemmas Wire_defs =
  Wire_begin_def Wire_beginTransmission_def Wire_write_def Wire_endTransmission_def
  Wire_requestFrom_def

declare readI2c_loop.simps [simp del]

subsection \<open>The constructor\<close>

lemma ADT7410_0: "ADT7410 0 = \<lparr>sensorID = 0, i2cAddress = 0x48\<rparr>"
  by (simp add: ADT7410_def ADT7410_I2C_ADDRESS_0_def)

lemma ADT7410_inv:
  "sensorID (ADT7410 sensor_id) \<in> {0, 1, 2} \<and>
   i2cAddress (ADT7410 sensor_id) = 0x48 + sensorID (ADT7410 sensor_id)"
  by (simp add: ADT7410_def ADT7410_I2C_ADDRESS_0_def)

text \<open>
  \<^bold>\<open>C4.\<close> For a sensor id in {0, 1, 2} the constructor stores the id and the address
  0x48 + id; for any other id it stores id 0 and address 0x48. The constructor is a total
  function to handles: there is no error outcome.
\<close>

theorem constructor_address:
  "(sensor_id \<in> {0, 1, 2} \<longrightarrow>
      ADT7410 sensor_id = \<lparr>sensorID = sensor_id, i2cAddress = 0x48 + sensor_id\<rparr>) \<and>
   (sensor_id \<notin> {0, 1, 2} \<longrightarrow>
      ADT7410 sensor_id = \<lparr>sensorID = 0, i2cAddress = 0x48\<rparr>)"
  by (simp add: ADT7410_def ADT7410_I2C_ADDRESS_0_def)

theorem constructor_address_witness:
  "ADT7410 2 = \<lparr>sensorID = 2, i2cAddress = 0x4A\<rparr> \<and>
   ADT7410 3 = \<lparr>sensorID = 0, i2cAddress = 0x48\<rparr> \<and>
   ADT7410 0xFF = \<lparr>sensorID = 0, i2cAddress = 0x48\<rparr>"
  using constructor_address [of 2] constructor_address [of 3] constructor_address [of "0xFF"]
  by simp

subsection \<open>The read loop\<close>

lemma readI2c_loop_Nil:
  "rxbuf w = [] \<Longrightarrow> readI2c_loop i data w = Inr (data, w)"
  by (subst readI2c_loop.simps) (simp add: Wire_available_def)

lemma readI2c_loop_Cons:
  "rxbuf w = b # bs \<Longrightarrow>
   readI2c_loop i data w =
     (if unat i < length data
      then readI2c_loop (i + 1) (data[unat i := Some b]) (w\<lparr>rxbuf := bs\<rparr>)
      else Inl BufferOverrun)"
  by (subst readI2c_loop.simps) (simp add: Wire_available_def Wire_read_def)

text \<open>
  As long as the bytes fit into the object and the 8-bit index does not wrap, the loop
  stores every received byte, in order, from index \<open>i\<close> on.
\<close>

lemma readI2c_loop_fill:
  "rxbuf w = r \<Longrightarrow> unat i + length r \<le> length data \<Longrightarrow> unat i + length r \<le> 256 \<Longrightarrow>
   readI2c_loop i data w =
     Inr (take (unat i) data @ map Some r @ drop (unat i + length r) data, w\<lparr>rxbuf := []\<rparr>)"
proof (induction r arbitrary: i data w)
  case Nil
  then show ?case by (simp add: readI2c_loop_Nil)
next
  case (Cons b bs)
  from Cons.prems have lt: "unat i < length data" by simp
  show ?case
  proof (cases bs)
    case Nil
    with Cons.prems lt show ?thesis
      by (simp add: readI2c_loop_Cons readI2c_loop_Nil upd_conv_take_nth_drop)
  next
    case (Cons c cs)
    with Cons.prems have "unat i < 255" by simp
    then have u: "unat (i + 1) = unat i + 1"
      by (simp add: unat_word_ariths)
    have "readI2c_loop (i + 1) (data[unat i := Some b]) (w\<lparr>rxbuf := bs\<rparr>) =
       Inr (take (unat (i + 1)) (data[unat i := Some b]) @ map Some bs @
            drop (unat (i + 1) + length bs) (data[unat i := Some b]),
            w\<lparr>rxbuf := bs\<rparr>\<lparr>rxbuf := []\<rparr>)"
      using Cons.prems u by (intro Cons.IH) simp_all
    with Cons.prems lt u show ?thesis
      by (simp add: readI2c_loop_Cons take_Suc_conv_app_nth)
  qed
qed

lemma readI2c_delivers:
  assumes "script (bus s) = r # rs" and "min (unat num) (length r) \<le> length data"
  shows "readI2c address num data s =
     Inr (map Some (take (unat num) r) @ drop (min (unat num) (length r)) data,
          s\<lparr>bus := (bus s)\<lparr>trace := trace (bus s) @
                 [BeginTransmission (i2cAddress (self s)), Write address, EndTransmission,
                  RequestFrom (i2cAddress (self s)) num],
               rxbuf := [], script := rs\<rparr>\<rparr>)"
proof -
  let ?w = "(bus s)\<lparr>trace := trace (bus s) @
                 [BeginTransmission (i2cAddress (self s)), Write address, EndTransmission,
                  RequestFrom (i2cAddress (self s)) num],
               rxbuf := take (unat num) r, script := rs\<rparr>"
  have "unat num < 256"
    using unsigned_less [of num, where ?'a = nat] by simp
  then have "min (unat num) (length r) \<le> 256" by simp
  with assms(2) have "readI2c_loop 0 data ?w =
      Inr (map Some (take (unat num) r) @ drop (min (unat num) (length r)) data,
           ?w\<lparr>rxbuf := []\<rparr>)"
    using readI2c_loop_fill [of ?w "take (unat num) r" 0 data] by (simp add: min.commute)
  then show ?thesis
    using assms(1) by (simp add: readI2c_def Wire_defs)
qed

text \<open>
  \<^bold>\<open>C7.\<close> Whatever bytes the device offers, and for every count \<open>num\<close> and every
  caller's object of at least \<open>num\<close> bytes, \<open>readI2c\<close> stores the first
  min (\<open>num\<close>, bytes offered) bytes, in order, at the indices from 0 on and stops: every
  byte of the object from index \<open>num\<close> on keeps its content.
\<close>

theorem readI2c_within_count:
  assumes "script (bus s) = r # rs" and "unat num \<le> length data"
  shows "readI2c address num data s =
     Inr (map Some (take (unat num) r) @ drop (min (unat num) (length r)) data,
          s\<lparr>bus := (bus s)\<lparr>trace := trace (bus s) @
                 [BeginTransmission (i2cAddress (self s)), Write address, EndTransmission,
                  RequestFrom (i2cAddress (self s)) num],
               rxbuf := [], script := rs\<rparr>\<rparr>) \<and>
     length (take (unat num) r) = min (unat num) (length r) \<and>
     drop (unat num) (map Some (take (unat num) r) @ drop (min (unat num) (length r)) data) =
       drop (unat num) data"
proof -
  from assms(2) have "min (unat num) (length r) \<le> length data" by simp
  with assms(1) have "readI2c address num data s =
     Inr (map Some (take (unat num) r) @ drop (min (unat num) (length r)) data,
          s\<lparr>bus := (bus s)\<lparr>trace := trace (bus s) @
                 [BeginTransmission (i2cAddress (self s)), Write address, EndTransmission,
                  RequestFrom (i2cAddress (self s)) num],
               rxbuf := [], script := rs\<rparr>\<rparr>)"
    by (rule readI2c_delivers)
  moreover have
    "drop (unat num) (map Some (take (unat num) r) @ drop (min (unat num) (length r)) data) =
       drop (unat num) data"
    by (simp add: min_def)
  ultimately show ?thesis by (simp add: min.commute)
qed

text \<open>
  Three reads into a two-byte object: the device offers the two bytes asked for; it offers
  one byte where two were asked for; it offers two bytes where one was asked for, and the
  second slot stays unwritten.
\<close>

theorem readI2c_within_count_witness:
  "readI2c 0x00 2 [None, None]
     \<lparr>self = ADT7410 0, bus = \<lparr>trace = [], rxbuf = [], script = [[0x0C, 0x80]]\<rparr>\<rparr> =
   Inr ([Some 0x0C, Some 0x80],
     \<lparr>self = ADT7410 0,
      bus = \<lparr>trace = [BeginTransmission 0x48, Write 0x00, EndTransmission, RequestFrom 0x48 2],
             rxbuf = [], script = []\<rparr>\<rparr>) \<and>
   readI2c 0x00 2 [None, None]
     \<lparr>self = ADT7410 0, bus = \<lparr>trace = [], rxbuf = [], script = [[0x0C]]\<rparr>\<rparr> =
   Inr ([Some 0x0C, None],
     \<lparr>self = ADT7410 0,
      bus = \<lparr>trace = [BeginTransmission 0x48, Write 0x00, EndTransmission, RequestFrom 0x48 2],
             rxbuf = [], script = []\<rparr>\<rparr>) \<and>
   readI2c 0x00 1 [None, None]
     \<lparr>self = ADT7410 0, bus = \<lparr>trace = [], rxbuf = [], script = [[0xAA, 0xBB]]\<rparr>\<rparr> =
   Inr ([Some 0xAA, None],
     \<lparr>self = ADT7410 0,
      bus = \<lparr>trace = [BeginTransmission 0x48, Write 0x00, EndTransmission, RequestFrom 0x48 1],
             rxbuf = [], script = []\<rparr>\<rparr>)"
  using readI2c_within_count
          [of "\<lparr>self = ADT7410 0, bus = \<lparr>trace = [], rxbuf = [], script = [[0x0C, 0x80]]\<rparr>\<rparr>"
              "[0x0C, 0x80]" "[]" 2 "[None, None]" "0x00"]
        readI2c_within_count
          [of "\<lparr>self = ADT7410 0, bus = \<lparr>trace = [], rxbuf = [], script = [[0x0C]]\<rparr>\<rparr>"
              "[0x0C]" "[]" 2 "[None, None]" "0x00"]
        readI2c_within_count
          [of "\<lparr>self = ADT7410 0, bus = \<lparr>trace = [], rxbuf = [], script = [[0xAA, 0xBB]]\<rparr>\<rparr>"
              "[0xAA, 0xBB]" "[]" 1 "[None, None]" "0x00"]
  by (simp add: ADT7410_0)

subsection \<open>getStatus and initialise\<close>

text \<open>
  \<^bold>\<open>C6.\<close> \<open>getStatus\<close> asks for one byte of the status register, address 0x02, and
  returns the byte the bus delivers as it is, whatever its value.
\<close>

theorem getStatus_raw_byte:
  "script (bus s) = [b] # rs \<Longrightarrow>
   getStatus s =
     Inr (b, s\<lparr>bus := (bus s)\<lparr>trace := trace (bus s) @
                 [BeginTransmission (i2cAddress (self s)), Write 0x02, EndTransmission,
                  RequestFrom (i2cAddress (self s)) 1],
               rxbuf := [], script := rs\<rparr>\<rparr>)"
  by (simp add: getStatus_def readI2c_delivers load_def ADT7410_REG__ADT7410_STATUS_def)

theorem getStatus_raw_byte_witness:
  "getStatus \<lparr>self = ADT7410 0, bus = \<lparr>trace = [], rxbuf = [], script = [[0x7F], [0x01]]\<rparr>\<rparr> =
   Inr (0x7F,
     \<lparr>self = ADT7410 0,
      bus = \<lparr>trace = [BeginTransmission 0x48, Write 0x02, EndTransmission, RequestFrom 0x48 1],
             rxbuf = [], script = [[0x01]]\<rparr>\<rparr>)"
  using getStatus_raw_byte
          [of "\<lparr>self = ADT7410 0, bus = \<lparr>trace = [], rxbuf = [], script = [[0x7F], [0x01]]\<rparr>\<rparr>"
              "0x7F" "[[0x01]]"]
  by (simp add: ADT7410_0)

text \<open>
  \<^bold>\<open>C5.\<close> \<open>initialise\<close> starts the bus, reads one byte of the ID register, address
  0x0B, writes the single byte 0x81 to the configuration register, address 0x03, and
  returns the ID byte as delivered. In 0x81 bit 7 is the 16-bit mode, bits 6 and 5 are
  zero (continuous conversion) and bit 0 is set.
\<close>

theorem initialise_config_and_id:
  "script (bus s) = [b] # rs \<Longrightarrow>
   initialise s =
     Inr (b, s\<lparr>bus := (bus s)\<lparr>trace := trace (bus s) @
                 [Begin,
                  BeginTransmission (i2cAddress (self s)), Write 0x0B, EndTransmission,
                  RequestFrom (i2cAddress (self s)) 1,
                  BeginTransmission (i2cAddress (self s)), Write 0x03, Write 0x81,
                  EndTransmission],
               rxbuf := [], script := rs\<rparr>\<rparr>) \<and>
   (0x81 :: byte) AND 0x80 = ADT7410_MODE_16BIT \<and>
   (0x81 :: byte) AND 0x60 = ADT7410_MODE_CONTINUOUS \<and>
   (0x81 :: byte) AND 0x01 = 1"
  by (simp add: initialise_def readI2c_delivers load_def writeI2c_def Wire_defs reg_defs)

theorem initialise_config_and_id_witness:
  "initialise
     \<lparr>self = ADT7410 2, bus = \<lparr>trace = [], rxbuf = [], script = [[0xCB]]\<rparr>\<rparr> =
   Inr (0xCB,
     \<lparr>self = ADT7410 2,
      bus = \<lparr>trace =
               [Begin,
                BeginTransmission 0x4A, Write 0x0B, EndTransmission, RequestFrom 0x4A 1,
                BeginTransmission 0x4A, Write 0x03, Write 0x81, EndTransmission],
             rxbuf = [], script = []\<rparr>\<rparr>)"
  using initialise_config_and_id
          [of "\<lparr>self = ADT7410 2, bus = \<lparr>trace = [], rxbuf = [], script = [[0xCB]]\<rparr>\<rparr>"
              "0xCB" "[]"]
  by (simp add: ADT7410_def ADT7410_I2C_ADDRESS_0_def)

subsection \<open>readTemperature\<close>

text \<open>
  The run in which the conversion is ready and the bus delivers every byte asked for:
  one status byte, one configuration byte, two data bytes.
\<close>

lemma readTemperature_ready:
  "script (bus s) = [st] # [c] # [d0, d1] # rs \<Longrightarrow> st AND 0x80 = 0 \<Longrightarrow>
   readTemperature s =
     Inr (convert c d0 d1,
          s\<lparr>bus := (bus s)\<lparr>trace := trace (bus s) @
                 [BeginTransmission (i2cAddress (self s)), Write 0x02, EndTransmission,
                  RequestFrom (i2cAddress (self s)) 1,
                  BeginTransmission (i2cAddress (self s)), Write 0x03, EndTransmission,
                  RequestFrom (i2cAddress (self s)) 1,
                  BeginTransmission (i2cAddress (self s)), Write 0x00, EndTransmission,
                  RequestFrom (i2cAddress (self s)) 2],
               rxbuf := [], script := rs\<rparr>\<rparr>)"
  by (simp add: readTemperature_def getStatus_def readI2c_delivers load_def reg_defs)

text \<open>
  \<^bold>\<open>C3.\<close> When the status byte has bit 7 set, \<open>readTemperature\<close> returns 0 after the
  status read alone: the trace grows by that one transaction and the bus is asked for
  nothing more, whatever a later read would have delivered.
\<close>

theorem readTemperature_not_ready:
  "script (bus s) = [st] # rs \<Longrightarrow> st AND 0x80 \<noteq> 0 \<Longrightarrow>
   readTemperature s =
     Inr (0, s\<lparr>bus := (bus s)\<lparr>trace := trace (bus s) @
                 [BeginTransmission (i2cAddress (self s)), Write 0x02, EndTransmission,
                  RequestFrom (i2cAddress (self s)) 1],
               rxbuf := [], script := rs\<rparr>\<rparr>)"
  by (simp add: readTemperature_def getStatus_def readI2c_delivers load_def reg_defs)

theorem readTemperature_not_ready_witness:
  "readTemperature
     \<lparr>self = ADT7410 0,
      bus = \<lparr>trace = [], rxbuf = [], script = [[0x80], [0x81], [0x01, 0x90]]\<rparr>\<rparr> =
   Inr (0,
     \<lparr>self = ADT7410 0,
      bus = \<lparr>trace = [BeginTransmission 0x48, Write 0x02, EndTransmission, RequestFrom 0x48 1],
             rxbuf = [], script = [[0x81], [0x01, 0x90]]\<rparr>\<rparr>)"
  using readTemperature_not_ready
          [of "\<lparr>self = ADT7410 0,
                bus = \<lparr>trace = [], rxbuf = [], script = [[0x80], [0x81], [0x01, 0x90]]\<rparr>\<rparr>"
              "0x80" "[[0x81], [0x01, 0x90]]"]
  by (simp add: ADT7410_0)

text \<open>
  \<^bold>\<open>C1.\<close> With the status byte 0x00, the configuration byte 0x81 that \<open>initialise\<close>
  writes (bit 7 set) and the data bytes 0x01, 0x90, \<open>readTemperature\<close> takes the branch
  that shifts right by 3 and returns 50, where the 16-bit rule gives 400.
\<close>

theorem readTemperature_bit7_set_shifts:
  "readTemperature
     \<lparr>self = ADT7410 0,
      bus = \<lparr>trace = [], rxbuf = [], script = [[0x00], [0x81], [0x01, 0x90]]\<rparr>\<rparr> =
   Inr (50,
     \<lparr>self = ADT7410 0,
      bus = \<lparr>trace =
               [BeginTransmission 0x48, Write 0x02, EndTransmission, RequestFrom 0x48 1,
                BeginTransmission 0x48, Write 0x03, EndTransmission, RequestFrom 0x48 1,
                BeginTransmission 0x48, Write 0x00, EndTransmission, RequestFrom 0x48 2],
             rxbuf = [], script = []\<rparr>\<rparr>)"
  by (simp add: readTemperature_ready ADT7410_0 convert_def)

text \<open>
  \<^bold>\<open>C2.\<close> With the status byte 0x00, the configuration byte 0x00 (bit 7 clear) and the
  data bytes 0x1F, 0xF8, \<open>readTemperature\<close> takes the branch without a shift and returns
  0x1FF8 = 8184, where the 13-bit rule gives 1023.
\<close>

theorem readTemperature_bit7_clear_keeps_16_bits:
  "readTemperature
     \<lparr>self = ADT7410 0,
      bus = \<lparr>trace = [], rxbuf = [], script = [[0x00], [0x00], [0x1F, 0xF8]]\<rparr>\<rparr> =
   Inr (8184,
     \<lparr>self = ADT7410 0,
      bus = \<lparr>trace =
               [BeginTransmission 0x48, Write 0x02, EndTransmission, RequestFrom 0x48 1,
                BeginTransmission 0x48, Write 0x03, EndTransmission, RequestFrom 0x48 1,
                BeginTransmission 0x48, Write 0x00, EndTransmission, RequestFrom 0x48 2],
             rxbuf = [], script = []\<rparr>\<rparr>)"
  by (simp add: readTemperature_ready ADT7410_0 convert_def)

subsection \<open>The two branches of the conversion\<close>

lemma convert_no_shift:
  "config AND 0x80 = 0 \<Longrightarrow>
   convert config data0 data1 = push_bit 8 (ucast data0) OR ucast data1"
  by (simp add: convert_def Let_def)

text \<open>
  \<^bold>\<open>C9.\<close> In the branch without a shift the subtraction of 65536 does nothing to the
  16-bit result: \<open>readTemperature\<close> returns the concatenation \<open>(data[0] << 8) | data[1]\<close>
  itself, for every pair of data bytes.
\<close>

theorem readTemperature_no_shift_is_concatenation:
  assumes "script (bus s) = [st] # [c] # [d0, d1] # rs"
    and "st AND 0x80 = 0" and "c AND 0x80 = 0"
  shows "readTemperature s =
     Inr (push_bit 8 (ucast d0) OR ucast d1,
          s\<lparr>bus := (bus s)\<lparr>trace := trace (bus s) @
                 [BeginTransmission (i2cAddress (self s)), Write 0x02, EndTransmission,
                  RequestFrom (i2cAddress (self s)) 1,
                  BeginTransmission (i2cAddress (self s)), Write 0x03, EndTransmission,
                  RequestFrom (i2cAddress (self s)) 1,
                  BeginTransmission (i2cAddress (self s)), Write 0x00, EndTransmission,
                  RequestFrom (i2cAddress (self s)) 2],
               rxbuf := [], script := rs\<rparr>\<rparr>)"
  using readTemperature_ready [OF assms(1) assms(2)] convert_no_shift [OF assms(3)]
  by simp

theorem readTemperature_no_shift_is_concatenation_witness:
  "readTemperature
     \<lparr>self = ADT7410 0,
      bus = \<lparr>trace = [], rxbuf = [], script = [[0x00], [0x00], [0xFF, 0x38]]\<rparr>\<rparr> =
   Inr (0xFF38,
     \<lparr>self = ADT7410 0,
      bus = \<lparr>trace =
               [BeginTransmission 0x48, Write 0x02, EndTransmission, RequestFrom 0x48 1,
                BeginTransmission 0x48, Write 0x03, EndTransmission, RequestFrom 0x48 1,
                BeginTransmission 0x48, Write 0x00, EndTransmission, RequestFrom 0x48 2],
             rxbuf = [], script = []\<rparr>\<rparr>)"
  using readTemperature_no_shift_is_concatenation
          [of "\<lparr>self = ADT7410 0,
                bus = \<lparr>trace = [], rxbuf = [], script = [[0x00], [0x00], [0xFF, 0x38]]\<rparr>\<rparr>"
              "0x00" "0x00" "0xFF" "0x38" "[]"]
  by (simp add: ADT7410_0)

lemma bit12_iff:
  fixes t :: "16 word"
  assumes "uint t < 8192"
  shows "(t AND 0x1000 \<noteq> 0) = (4096 \<le> uint t)"
proof -
  have a: "(t AND 2 ^ 12 = 0) = (\<not> bit t 12)"
    by (rule and_exp_eq_0_iff_not_bit)
  have b: "bit t 12 = bit (uint t) 12"
    by (simp add: bit_uint_iff)
  have c: "bit (uint t) 12 = odd (uint t div 2 ^ 12)"
    by (rule bit_iff_odd)
  have "0 \<le> uint t" by simp
  with assms have "uint t div 4096 = (if 4096 \<le> uint t then 1 else 0)"
    by auto
  then have d: "odd (uint t div 2 ^ 12) = (4096 \<le> uint t)" by simp
  from a b c d show ?thesis by simp
qed

lemma uint_shifted:
  fixes x :: "16 word"
  shows "uint (drop_bit 3 x) < 8192"
proof -
  have "uint (drop_bit 3 x) = uint x div 8"
    by (simp add: drop_bit_eq_div uint_div)
  moreover have "uint x < 65536"
    using uint_bounded [of x] by simp
  ultimately show ?thesis by linarith
qed

lemma signed_take_bit_12:
  fixes k :: int
  assumes "0 \<le> k" "k < 8192"
  shows "signed_take_bit 12 k = (if k < 4096 then k else k - 8192)"
proof (cases "k < 4096")
  case True
  with assms show ?thesis
    by (simp add: signed_take_bit_eq_take_bit_shift take_bit_eq_mod)
next
  case False
  with assms have "(k + 4096) mod 8192 = k - 4096"
    by (simp add: mod_pos_geq)
  with False show ?thesis
    by (simp add: signed_take_bit_eq_take_bit_shift take_bit_eq_mod)
qed

lemma sint_16:
  fixes w :: "16 word"
  shows "sint w = (if uint w < 32768 then uint w else uint w - 65536)"
proof -
  have b: "0 \<le> uint w" "uint w < 65536"
    using uint_bounded [of w] by simp_all
  have s: "sint w = (uint w + 32768) mod 65536 - 32768"
    by (simp add: sint_uint signed_take_bit_eq_take_bit_shift take_bit_eq_mod)
  show ?thesis
  proof (cases "uint w < 32768")
    case True
    with b s show ?thesis by simp
  next
    case False
    with b have "(uint w + 32768) mod 65536 = uint w - 32768"
      by (simp add: mod_pos_geq)
    with False s show ?thesis by simp
  qed
qed

lemma uint_word_of_int_16: "uint (word_of_int k :: 16 word) = k mod 65536"
  by (simp add: uint_word_of_int)

text \<open>
  The branch with the shift: the result is the 13-bit value \<open>raw >> 3\<close>, sign-extended
  from bit 12 to 16 bits.
\<close>

lemma convert_shift:
  assumes "config AND 0x80 \<noteq> 0"
  shows "(convert config data0 data1 \<le> 0x0FFF \<or> 0xF000 \<le> convert config data0 data1) \<and>
         sint (convert config data0 data1) =
           signed_take_bit 12
             (uint (drop_bit 3 (push_bit 8 (ucast data0) OR ucast data1 :: 16 word))) \<and>
         - 4096 \<le> sint (convert config data0 data1) \<and>
         sint (convert config data0 data1) \<le> 4095"
proof -
  define t :: "16 word" where "t = drop_bit 3 (push_bit 8 (ucast data0) OR ucast data1)"
  define v where "v = convert config data0 data1"
  have lt: "uint t < 8192" unfolding t_def by (rule uint_shifted)
  have ge: "0 \<le> uint t" by simp
  have cv: "v = (if t AND 0x1000 \<noteq> 0 then word_of_int (uint t - 8192) else t)"
    using assms unfolding v_def convert_def Let_def t_def by (simp only: simp_thms if_True)
  have "(v \<le> 0x0FFF \<or> 0xF000 \<le> v) \<and> sint v = signed_take_bit 12 (uint t) \<and>
        - 4096 \<le> sint v \<and> sint v \<le> 4095"
  proof (cases "4096 \<le> uint t")
    case True
    with lt have "v = word_of_int (uint t - 8192)"
      by (simp only: cv bit12_iff if_True)
    then have "uint v = (uint t - 8192) mod 65536"
      by (simp only: uint_word_of_int_16)
    also have "\<dots> = uint t + 57344"
      by (rule int_mod_pos_eq [where q = "- 1"]) (use True lt in simp_all)
    finally have u: "uint v = uint t + 57344" .
    with True lt have "0xF000 \<le> v"
      by (simp add: word_le_def)
    moreover from u True lt have "sint v = uint t - 8192"
      by (simp add: sint_16)
    moreover from True lt ge have "signed_take_bit 12 (uint t) = uint t - 8192"
      by (simp add: signed_take_bit_12)
    ultimately show ?thesis using True lt by simp
  next
    case False
    with lt have "v = t"
      by (simp only: cv bit12_iff if_False)
    moreover from False have "t \<le> 0x0FFF"
      by (simp add: word_le_def)
    moreover from False have "sint t = uint t"
      by (simp add: sint_16)
    moreover from False ge have "signed_take_bit 12 (uint t) = uint t"
      by (simp add: signed_take_bit_12)
    moreover have "- 4096 \<le> uint t"
      using ge by linarith
    ultimately show ?thesis using False by simp
  qed
  then show ?thesis unfolding v_def t_def .
qed

text \<open>
  \<^bold>\<open>C10.\<close> In the branch that shifts right by 3 and subtracts 8192 when bit 12 is
  set, the value \<open>readTemperature\<close> returns lies in [0x0000, 0x0FFF] or in
  [0xF000, 0xFFFF]: read as two's complement it is the 13-bit value, sign-extended from
  bit 12, between -4096 and 4095, for every pair of data bytes.
\<close>

theorem readTemperature_shift_is_signed_13_bit:
  assumes "script (bus s) = [st] # [c] # [d0, d1] # rs"
    and "st AND 0x80 = 0" and "c AND 0x80 \<noteq> 0"
  shows "readTemperature s =
     Inr (convert c d0 d1,
          s\<lparr>bus := (bus s)\<lparr>trace := trace (bus s) @
                 [BeginTransmission (i2cAddress (self s)), Write 0x02, EndTransmission,
                  RequestFrom (i2cAddress (self s)) 1,
                  BeginTransmission (i2cAddress (self s)), Write 0x03, EndTransmission,
                  RequestFrom (i2cAddress (self s)) 1,
                  BeginTransmission (i2cAddress (self s)), Write 0x00, EndTransmission,
                  RequestFrom (i2cAddress (self s)) 2],
               rxbuf := [], script := rs\<rparr>\<rparr>) \<and>
     (convert c d0 d1 \<le> 0x0FFF \<or> 0xF000 \<le> convert c d0 d1) \<and>
     sint (convert c d0 d1) =
       signed_take_bit 12 (uint (drop_bit 3 (push_bit 8 (ucast d0) OR ucast d1 :: 16 word))) \<and>
     - 4096 \<le> sint (convert c d0 d1) \<and>
     sint (convert c d0 d1) \<le> 4095"
  using readTemperature_ready [OF assms(1) assms(2)] convert_shift [OF assms(3), of d0 d1]
  by simp

theorem readTemperature_shift_is_signed_13_bit_witness:
  "readTemperature
     \<lparr>self = ADT7410 0,
      bus = \<lparr>trace = [], rxbuf = [], script = [[0x00], [0x81], [0xFF, 0x38]]\<rparr>\<rparr> =
   Inr (convert 0x81 0xFF 0x38,
     \<lparr>self = ADT7410 0,
      bus = \<lparr>trace =
               [BeginTransmission 0x48, Write 0x02, EndTransmission, RequestFrom 0x48 1,
                BeginTransmission 0x48, Write 0x03, EndTransmission, RequestFrom 0x48 1,
                BeginTransmission 0x48, Write 0x00, EndTransmission, RequestFrom 0x48 2],
             rxbuf = [], script = []\<rparr>\<rparr>) \<and>
   (convert 0x81 0xFF 0x38 \<le> 0x0FFF \<or> 0xF000 \<le> convert 0x81 0xFF 0x38) \<and>
   sint (convert 0x81 0xFF 0x38) = - 25"
  using readTemperature_shift_is_signed_13_bit
          [of "\<lparr>self = ADT7410 0,
                bus = \<lparr>trace = [], rxbuf = [], script = [[0x00], [0x81], [0xFF, 0x38]]\<rparr>\<rparr>"
              "0x00" "0x81" "0xFF" "0x38" "[]"]
  by (simp add: ADT7410_0)

subsection \<open>The handle never changes\<close>

lemma readI2c_self:
  "readI2c address num data s = Inr (data', s') \<Longrightarrow> self s' = self s"
  by (auto simp: readI2c_def Let_def split: sum.splits)

lemma writeI2c_self: "self (writeI2c address data s) = self s"
  by (simp add: writeI2c_def Let_def)

lemma getStatus_self: "getStatus s = Inr (v, s') \<Longrightarrow> self s' = self s"
  by (auto simp: getStatus_def split: sum.splits dest: readI2c_self)

lemma initialise_self: "initialise s = Inr (v, s') \<Longrightarrow> self s' = self s"
  by (auto simp: initialise_def Let_def writeI2c_self split: sum.splits dest!: readI2c_self)

lemma readTemperature_self: "readTemperature s = Inr (v, s') \<Longrightarrow> self s' = self s"
  by (auto simp: readTemperature_def split: sum.splits if_splits
      dest!: readI2c_self getStatus_self)

lemma exec_self: "exec c s = Inr s' \<Longrightarrow> self s' = self s"
  by (cases c)
     (auto simp: getID_def split: sum.splits
       dest: initialise_self readTemperature_self getStatus_self)

lemma run_self: "run cs s = Inr s' \<Longrightarrow> self s' = self s"
proof (induction cs arbitrary: s)
  case Nil
  then show ?case by simp
next
  case (Cons c cs)
  then obtain s1 where e: "exec c s = Inr s1" and r: "run cs s1 = Inr s'"
    by (auto split: sum.splits)
  from Cons.IH [OF r] exec_self [OF e] show ?case by simp
qed

text \<open>
  \<^bold>\<open>C8.\<close> Start from a freshly constructed handle, on any bus, and call public
  methods in any order and number (none included). In the state reached the handle is
  the constructed one: its \<open>sensorID\<close> is 0, 1 or 2, its \<open>i2cAddress\<close> is
  0x48 + \<open>sensorID\<close>, and \<open>getID\<close> returns the \<open>sensorID\<close> stored by the constructor
  and changes nothing.
\<close>

theorem handle_invariant:
  assumes "run cs \<lparr>self = ADT7410 sensor_id, bus = w\<rparr> = Inr s'"
  shows "self s' = ADT7410 sensor_id \<and>
         sensorID (self s') \<in> {0, 1, 2} \<and>
         i2cAddress (self s') = 0x48 + sensorID (self s') \<and>
         getID s' = (sensorID (ADT7410 sensor_id), s')"
proof -
  from run_self [OF assms] have "self s' = ADT7410 sensor_id" by simp
  then show ?thesis using ADT7410_inv [of sensor_id] by (simp add: getID_def)
qed

theorem handle_invariant_witness:
  "(case run [Initialise, GetStatus, ReadTemperature, GetID]
           \<lparr>self = ADT7410 1,
            bus = \<lparr>trace = [], rxbuf = [],
                   script = [[0xCB], [0x00], [0x00], [0x81], [0x0C, 0x80]]\<rparr>\<rparr> of
      Inl e \<Rightarrow> False
    | Inr s' \<Rightarrow> self s' = \<lparr>sensorID = 1, i2cAddress = 0x49\<rparr> \<and> fst (getID s') = 1)"
proof -
  have a: "ADT7410 1 = \<lparr>sensorID = 1, i2cAddress = 0x49\<rparr>"
    by (simp add: ADT7410_def ADT7410_I2C_ADDRESS_0_def)
  obtain s' where r:
    "run [Initialise, GetStatus, ReadTemperature, GetID]
           \<lparr>self = ADT7410 1,
            bus = \<lparr>trace = [], rxbuf = [],
                   script = [[0xCB], [0x00], [0x00], [0x81], [0x0C, 0x80]]\<rparr>\<rparr> = Inr s'"
    by (simp add: a initialise_def writeI2c_def Wire_defs getStatus_def readTemperature_def
          readI2c_delivers load_def reg_defs getID_def)
  show ?thesis
    by (subst r) (use handle_invariant [OF r] in \<open>simp add: a\<close>)
qed

end
